theory Spec2Isabelle
  imports Complex_Main "HOL-Library.Multiset" "HOL-Library.Sublist"
begin

section \<open>JavaScript values\<close>

text \<open>
  The numeric fields of a listing hold a number or \<open>null\<close>; a parser that skips its
  \<open>isNaN\<close> test can also leave \<open>NaN\<close> there, and an array read out of range gives
  \<open>undefined\<close>. Numbers are idealised: a double is the real number it stands for, so
  rounding to 53 bits, overflow to \<open>Infinity\<close> and the sign of zero are not modelled.
\<close>

datatype jsval = Undefined | Null | NaN | Num real

text \<open>ToBoolean on these values: \<open>undefined\<close>, \<open>null\<close>, \<open>NaN\<close> and \<open>0\<close> are falsy.\<close>

fun truthy :: "jsval \<Rightarrow> bool" where
  "truthy (Num r) = (r \<noteq> 0)"
| "truthy _ = False"

text \<open>
  ToNumber on these values. Every arithmetic use in the sources stands behind a
  truthiness test of its operands, so only the \<open>Num\<close> case is ever reached there.
\<close>

fun num :: "jsval \<Rightarrow> real" where
  "num (Num r) = r"
| "num _ = 0"

text \<open>\<open>v > c\<close> and \<open>v < c\<close> for a numeric constant \<open>c\<close>: \<open>null\<close> compares as 0, \<open>undefined\<close> and
  \<open>NaN\<close> compare false with everything.\<close>

fun gt :: "jsval \<Rightarrow> real \<Rightarrow> bool" where
  "gt (Num r) c = (r > c)"
| "gt Null c = (0 > c)"
| "gt _ c = False"

fun lt :: "jsval \<Rightarrow> real \<Rightarrow> bool" where
  "lt (Num r) c = (r < c)"
| "lt Null c = (0 < c)"
| "lt _ c = False"

text \<open>\<open>Math.round\<close>: to the nearest integer, a half rounds up.\<close>

definition js_round :: "real \<Rightarrow> int" where
  "js_round x = \<lfloor>x + 1 / 2\<rfloor>"

section \<open>rater.js: percentile\<close>

text \<open>\<open>sorted[i]\<close> for an integral index: \<open>undefined\<close> outside the array.\<close>

definition index :: "real list \<Rightarrow> int \<Rightarrow> jsval" where
  "index xs i = (if 0 \<le> i \<and> i < int (length xs) then Num (xs ! nat i) else Undefined)"

text \<open>
  \<^verbatim>\<open>function percentile(sorted, p) {
    if (!sorted.length) return 0;
    const idx = (p / 100) * (sorted.length - 1);
    const lower = Math.floor(idx);
    const upper = Math.ceil(idx);
    if (lower === upper) return sorted[lower];
    return sorted[lower] + (sorted[upper] - sorted[lower]) * (idx - lower);
  }\<close>
  Arithmetic on an \<open>undefined\<close> operand gives \<open>NaN\<close>. The parameter \<open>sorted\<close> is
  written \<open>srt\<close>, the name being taken in HOL.
\<close>

definition percentile :: "real list \<Rightarrow> real \<Rightarrow> jsval" where
  "percentile srt p =
     (if length srt = 0 then Num 0
      else
        let idx = (p / 100) * (real (length srt) - 1);
            lower = \<lfloor>idx\<rfloor>;
            upper = \<lceil>idx\<rceil>
        in if lower = upper then index srt lower
           else (case (index srt lower, index srt upper) of
                   (Num a, Num b) \<Rightarrow> Num (a + (b - a) * (idx - real_of_int lower))
                 | _ \<Rightarrow> NaN))"

section \<open>scraper.js: field normalisation\<close>

text \<open>
  A JavaScript string is modelled as a \<^typ>\<open>string\<close>, one \<^typ>\<open>char\<close> per code unit below
  256. The class \<open>\s\<close> of a regular expression, and the white space \<open>parseFloat\<close>,
  \<open>parseInt\<close> and \<open>trim\<close> skip, is then tab, line feed, vertical tab, form feed,
  carriage return, space and the no-break space.
\<close>

definition is_space :: "char \<Rightarrow> bool" where
  "is_space c = (c \<in> {CHR 0x09, CHR 0x0A, CHR 0x0B, CHR 0x0C, CHR 0x0D, CHR '' '', CHR 0xA0})"

definition is_digit :: "char \<Rightarrow> bool" where
  "is_digit c = (c \<in> set ''0123456789'')"

definition digit_val :: "char \<Rightarrow> nat" where
  "digit_val c = of_char c - 48"

text \<open>The value of a string of decimal digits.\<close>

definition dec :: "string \<Rightarrow> nat" where
  "dec ds = foldl (\<lambda>a c. 10 * a + digit_val c) 0 ds"

text \<open>
  \<open>parseFloat\<close>: skip leading white space, then read the longest prefix that is a
  decimal literal: an optional sign, digits with an optional fraction (or a fraction
  alone), and an exponent when digits follow the \<open>e\<close>. No digit in the mantissa gives
  \<open>NaN\<close>. The literal \<open>Infinity\<close>, which no real number stands for, is not covered.
\<close>

definition exponent :: "string \<Rightarrow> int" where
  "exponent s =
     (case s of
        [] \<Rightarrow> 0
      | c # r \<Rightarrow>
          if c = CHR ''e'' \<or> c = CHR ''E'' then
            (case r of
               [] \<Rightarrow> 0
             | d # r' \<Rightarrow>
                 if d = CHR ''-'' then
                   (if takeWhile is_digit r' = [] then 0 else - int (dec (takeWhile is_digit r')))
                 else if d = CHR ''+'' then int (dec (takeWhile is_digit r'))
                 else int (dec (takeWhile is_digit r)))
          else 0)"

definition unsigned_literal :: "string \<Rightarrow> real option" where
  "unsigned_literal s =
     (let ip = takeWhile is_digit s;
          r = dropWhile is_digit s;
          fp = (case r of c # r' \<Rightarrow> if c = CHR ''.'' then takeWhile is_digit r' else [] | [] \<Rightarrow> []);
          r2 = (case r of c # r' \<Rightarrow> if c = CHR ''.'' then dropWhile is_digit r' else r | [] \<Rightarrow> [])
      in if ip = [] \<and> fp = [] then None
         else
           let m = real (dec ip) + real (dec fp) / 10 ^ length fp;
               e = exponent r2
           in Some (if e < 0 then m / 10 ^ nat (- e) else m * 10 ^ nat e))"

definition parseFloat :: "string \<Rightarrow> jsval" where
  "parseFloat s =
     (let t = dropWhile is_space s;
          neg = (case t of c # _ \<Rightarrow> c = CHR ''-'' | [] \<Rightarrow> False);
          u = (case t of c # r \<Rightarrow> if c = CHR ''-'' \<or> c = CHR ''+'' then r else t | [] \<Rightarrow> [])
      in case unsigned_literal u of
           None \<Rightarrow> NaN
         | Some v \<Rightarrow> Num (if neg then - v else v))"

text \<open>\<open>s.replace(',', '.')\<close> with a string pattern replaces the first comma only.\<close>

fun replace_first_comma :: "string \<Rightarrow> string" where
  "replace_first_comma [] = []"
| "replace_first_comma (c # cs) = (if c = CHR '','' then CHR ''.'' # cs else c # replace_first_comma cs)"

text \<open>The character class \<open>[\d.,]\<close>.\<close>

definition is_numchar :: "char \<Rightarrow> bool" where
  "is_numchar c = (is_digit c \<or> c = CHR ''.'' \<or> c = CHR '','')"

text \<open>
  \<^verbatim>\<open>function parseSqm(text) {
    if (!text) return null;
    const match = text.replace(/\s/g, '').match(/([\d.,]+)/);
    if (!match) return null;
    return parseFloat(match[1].replace(',', '.'));
  }\<close>
  The leftmost match of the greedy class is the longest run of class characters that
  starts at the first of them.
\<close>

definition parseSqm :: "string \<Rightarrow> jsval" where
  "parseSqm text =
     (if text = [] then Null
      else
        let match = takeWhile is_numchar (dropWhile (\<lambda>c. \<not> is_numchar c) (filter (\<lambda>c. \<not> is_space c) text))
        in if match = [] then Null
           else parseFloat (replace_first_comma match))"

section \<open>scraper.js: listings and deduplication\<close>

text \<open>
  The record \<open>parseListings\<close> pushes. Two fields are renamed, their names being taken
  in HOL: \<open>id\<close> is \<open>ident\<close> and \<open>image\<close> is \<open>image_src\<close>. The identifier is always a string
  (\<open>attr('data-id') || attr('id') || ''\<close>), falsy exactly when empty.
\<close>

record listing =
  ident :: string
  title :: string
  link :: string
  price :: jsval
  pricePerSqm :: jsval
  sqm :: jsval
  landSqm :: jsval
  rooms :: "string option"
  image_src :: string
  imgCount :: int
  location :: string
  neighborhood :: string
  slug :: string

text \<open>
  \<^verbatim>\<open>function deduplicate(listings) {
    const seen = new Set();
    return listings.filter(l => {
      if (!l.id || seen.has(l.id)) return false;
      seen.add(l.id);
      return true;
    });
  }\<close>
  The filter callback mutates \<open>seen\<close>; the model passes the set along.
\<close>

fun dedup_from :: "string set \<Rightarrow> listing list \<Rightarrow> listing list" where
  "dedup_from seen [] = []"
| "dedup_from seen (l # ls) =
     (if ident l = [] \<or> ident l \<in> seen then dedup_from seen ls
      else l # dedup_from (insert (ident l) seen) ls)"

definition deduplicate :: "listing list \<Rightarrow> listing list" where
  "deduplicate listings = dedup_from {} listings"

section \<open>scraper.js: getTotalPages\<close>















section \<open>rater.js: rateListings\<close>

text \<open>
  \<open>Array.prototype.sort\<close> with a comparison function. ECMAScript asks for a stable sort
  and fixes the result when the comparison function is consistent on the array; the
  result is then the one of this insertion sort, which puts an element in front of the
  first later element it does not compare greater than. For an inconsistent function
  the standard leaves the order to the implementation, and the model's order is one
  of the admissible ones.
\<close>

fun insort_by :: "('a \<Rightarrow> 'a \<Rightarrow> real) \<Rightarrow> 'a \<Rightarrow> 'a list \<Rightarrow> 'a list" where
  "insort_by cmp x [] = [x]"
| "insort_by cmp x (y # ys) = (if cmp x y \<le> 0 then x # y # ys else y # insort_by cmp x ys)"

definition js_sort :: "('a \<Rightarrow> 'a \<Rightarrow> real) \<Rightarrow> 'a list \<Rightarrow> 'a list" where
  "js_sort cmp xs = foldr (insort_by cmp) xs []"

text \<open>The comparison function \<open>(a, b) => a - b\<close> of the numeric sorts.\<close>

definition ascending :: "real \<Rightarrow> real \<Rightarrow> real" where
  "ascending a b = a - b"

text \<open>
  A justification sentence: the template literal of the source with \<open>{}\<close> for each
  interpolated expression (the euro sign written EUR, the superscript two written 2),
  and the interpolated values in order. Rendering a number as text is not modelled.
\<close>

datatype arg = N jsval | I int | S string | L jsval

datatype msg = Msg string "arg list"

text \<open>
  A rated listing: the listing's fields (\<open>...listing\<close>) and the rating fields. The
  optional fields are \<open>None\<close> where the object has no such property: \<open>medianPPS\<close> on the
  no-price path, \<open>ratingPros\<close> and \<open>ratingCons\<close> in rater.js. \<open>ratingReason\<close> holds the
  sentences that rater.js joins with \<open>'. '\<close>.
\<close>

record rated = listing +
  rating :: int
  label :: string
  ratingReason :: "msg list"
  ratingPros :: "msg list option"
  ratingCons :: "msg list option"
  medianPPS :: "int option"

text \<open>The statistics of one neighbourhood; \<open>count\<close> is written \<open>n_count\<close>.\<close>

record nstat =
  median :: jsval
  p25 :: jsval
  n_count :: nat

datatype error = TypeError

text \<open>
  \<open>neighborhoodStats\<close> is a plain object used as a dictionary. For a key that
  \<open>Object.prototype\<close> defines, \<open>neighborhoodStats[key]\<close> reads the inherited member, which
  is truthy and has no \<open>push\<close>: the call \<open>neighborhoodStats[key].push(...)\<close> throws a
  TypeError. For every other key the object behaves as a map.
\<close>

definition proto_members :: "string set" where
  "proto_members =
     {''constructor'', ''hasOwnProperty'', ''isPrototypeOf'', ''propertyIsEnumerable'',
      ''toLocaleString'', ''toString'', ''valueOf'', ''__proto__'', ''__defineGetter__'',
      ''__defineSetter__'', ''__lookupGetter__'', ''__lookupSetter__''}"

text \<open>
  \<^verbatim>\<open>for (const listing of withPPS) {
    if (!neighborhoodStats[listing.neighborhood]) {
      neighborhoodStats[listing.neighborhood] = [];
    }
    neighborhoodStats[listing.neighborhood].push(listing.pricePerSqm);
  }\<close>
\<close>

fun collect :: "listing list \<Rightarrow> (string \<rightharpoonup> real list) \<Rightarrow> error + (string \<rightharpoonup> real list)" where
  "collect [] stats = Inr stats"
| "collect (listing # rest) stats =
     (if neighborhood listing \<in> proto_members then Inl TypeError
      else collect rest
             (stats(neighborhood listing \<mapsto>
                (case stats (neighborhood listing) of None \<Rightarrow> [] | Some a \<Rightarrow> a)
                  @ [num (pricePerSqm listing)])))"

text \<open>
  \<^verbatim>\<open>for (const key of Object.keys(neighborhoodStats)) {
    neighborhoodStats[key].sort((a, b) => a - b);
    neighborhoodStats[key] = {
      median: percentile(neighborhoodStats[key], 50),
      p25: percentile(neighborhoodStats[key], 25),
      count: neighborhoodStats[key].length,
    };
  }\<close>
\<close>

definition summarise :: "(string \<rightharpoonup> real list) \<Rightarrow> (string \<rightharpoonup> nstat)" where
  "summarise stats key =
     (case stats key of
        None \<Rightarrow> None
      | Some a \<Rightarrow>
          Some \<lparr>median = percentile (js_sort ascending a) 50,
                p25 = percentile (js_sort ascending a) 25,
                n_count = length (js_sort ascending a)\<rparr>)"

text \<open>The ladder of rater.js on \<open>ratio = pricePerSqm / medianPPS\<close>: the score and the sentence.\<close>

definition ladder :: "real \<Rightarrow> int \<times> msg" where
  "ladder ratio =
     (if ratio \<le> 0.4 then (10, Msg ''EUR/m2 is {}% below median'' [I (js_round ((1 - ratio) * 100))])
      else if ratio \<le> 0.55 then (9, Msg ''EUR/m2 is {}% below median'' [I (js_round ((1 - ratio) * 100))])
      else if ratio \<le> 0.7 then (8, Msg ''EUR/m2 is {}% below median'' [I (js_round ((1 - ratio) * 100))])
      else if ratio \<le> 0.85 then (7, Msg ''EUR/m2 well below median'' [])
      else if ratio \<le> 1.0 then (6, Msg ''EUR/m2 slightly below median'' [])
      else if ratio \<le> 1.15 then (5, Msg ''EUR/m2 near median'' [])
      else if ratio \<le> 1.3 then (4, Msg ''EUR/m2 above median'' [])
      else if ratio \<le> 1.5 then (3, Msg ''EUR/m2 well above median'' [])
      else if ratio \<le> 1.8 then (2, Msg ''EUR/m2 significantly above median'' [])
      else (1, Msg ''EUR/m2 far above median'' []))"

text \<open>The fallback ladder on \<open>ratio = price / medianPrice\<close>.\<close>

definition price_ladder :: "real \<Rightarrow> int" where
  "price_ladder ratio =
     (if ratio \<le> 0.5 then 8
      else if ratio \<le> 0.75 then 7
      else if ratio \<le> 1.0 then 6
      else if ratio \<le> 1.25 then 5
      else if ratio \<le> 1.5 then 4
      else 3)"

text \<open>
  The callback of \<open>listings.map\<close> in rater.js (lines 52 to 134). It reads the three
  statistics of the enclosing function; the local \<open>medianPPS\<close> is written \<open>medPPS\<close>, the
  name being the one of the output field. The pair \<open>(score, reasons)\<close> is the state the
  callback updates: first the price branch, then the land bonus, then the clamp.
\<close>

definition price_branch :: "jsval \<Rightarrow> jsval \<Rightarrow> (string \<rightharpoonup> nstat) \<Rightarrow> listing \<Rightarrow> int \<times> msg list" where
  "price_branch medPPS medianPrice neighborhoodStats listing =
     (if truthy (pricePerSqm listing) \<and> gt (pricePerSqm listing) 0 \<and> truthy medPPS then
        let ratio = num (pricePerSqm listing) / num medPPS;
            score = fst (ladder ratio);
            reasons = [snd (ladder ratio)]
        in (case neighborhoodStats (neighborhood listing) of
              None \<Rightarrow> (score, reasons)
            | Some nStats \<Rightarrow>
                if truthy (median nStats) then
                  let nRatio = num (pricePerSqm listing) / num (median nStats)
                  in if nRatio \<le> 0.6
                     then (min 10 (score + 1), reasons @ [Msg ''Best price in {}'' [S (neighborhood listing)]])
                     else (score, reasons)
                else (score, reasons))
      else if truthy (price listing) \<and> truthy medianPrice then
        let ratio = num (price listing) / num medianPrice
        in (price_ladder ratio, [Msg ''Rated by total price (no m2 data)'' []])
      else (5, [Msg ''Insufficient price data'' []]))"

definition land_bonus :: "listing \<Rightarrow> int \<times> msg list \<Rightarrow> int \<times> msg list" where
  "land_bonus listing st =
     (if truthy (landSqm listing) \<and> gt (landSqm listing) 500 \<and> truthy (price listing) then
        let landPriceRatio = num (price listing) / num (landSqm listing)
        in if landPriceRatio < 100
           then (min 10 (fst st + 1), snd st @ [Msg ''Large land at low price'' []])
           else st
      else st)"

definition rate :: "jsval \<Rightarrow> jsval \<Rightarrow> (string \<rightharpoonup> nstat) \<Rightarrow> listing \<Rightarrow> rated" where
  "rate medPPS medianPrice neighborhoodStats listing =
     (let st = land_bonus listing (price_branch medPPS medianPrice neighborhoodStats listing);
          score = max 1 (min 10 (fst st));
          label = (if score \<ge> 9 then ''MUST BUY'' else [])
      in listing.extend listing
           (rated.fields score label (snd st) None None
              (Some (js_round (if truthy medPPS then num medPPS else 0)))))"

text \<open>The result for a listing when no listing has a usable price (line 20).\<close>

definition no_price_rated :: "listing \<Rightarrow> rated" where
  "no_price_rated l =
     listing.extend l
       (rated.fields 5 [] [Msg ''No price data available for comparison'' []] None None None)"

text \<open>
  The comparison function of the final sort:
  \<^verbatim>\<open>(a, b) => {
    if (b.rating !== a.rating) return b.rating - a.rating;
    if (a.pricePerSqm && b.pricePerSqm) return a.pricePerSqm - b.pricePerSqm;
    if (a.price && b.price) return a.price - b.price;
    return 0;
  }\<close>
\<close>

definition by_rank :: "rated \<Rightarrow> rated \<Rightarrow> real" where
  "by_rank a b =
     (if rating b \<noteq> rating a then real_of_int (rating b - rating a)
      else if truthy (pricePerSqm a) \<and> truthy (pricePerSqm b)
        then num (pricePerSqm a) - num (pricePerSqm b)
      else if truthy (price a) \<and> truthy (price b) then num (price a) - num (price b)
      else 0)"

text \<open>The two filters of lines 16 and 17: \<open>l.price && l.price > 0\<close>.\<close>

definition usable :: "jsval \<Rightarrow> bool" where
  "usable v = (truthy v \<and> gt v 0)"

text \<open>
  \<open>rateListings\<close> of rater.js. The percentiles \<open>p25PPS\<close>, \<open>p10PPS\<close> and \<open>p75PPS\<close> are computed
  and never read; the model leaves them out.
\<close>

definition rateListings :: "listing list \<Rightarrow> error + rated list" where
  "rateListings listings =
     (if length listings = 0 then Inr []
      else
        let withPrice = filter (\<lambda>l. usable (price l)) listings;
            withPPS = filter (\<lambda>l. usable (pricePerSqm l)) listings
        in if length withPrice = 0 then Inr (map no_price_rated listings)
           else
             let allPPS = js_sort ascending (map (\<lambda>l. num (pricePerSqm l)) withPPS);
                 medPPS = (if length allPPS \<noteq> 0 then percentile allPPS 50 else Null);
                 allPrices = js_sort ascending (map (\<lambda>l. num (price l)) withPrice);
                 medianPrice = percentile allPrices 50
             in (case collect withPPS Map.empty of
                   Inl e \<Rightarrow> Inl e
                 | Inr stats \<Rightarrow>
                     Inr (js_sort by_rank
                            (map (rate medPPS medianPrice (summarise stats)) listings))))"

section \<open>part\_000: the second rateListings\<close>

text \<open>
  The file part\_000 is rater.js with a longer callback: the same statistics, ladders,
  bonuses, clamp and sort, and Serbian justification texts split over \<open>mainReason\<close>,
  \<open>pros\<close> and \<open>cons\<close>. Lines 12 to 49 and 174 to 192 are those of rater.js word for word,
  so \<open>percentile\<close>, \<open>collect\<close>, \<open>summarise\<close>, \<open>usable\<close> and \<open>by_rank\<close> above are their model too.
  The state of the callback is the record \<open>acc\<close>.
\<close>

record acc =
  score :: int
  mainReason :: msg
  pros :: "msg list"
  cons :: "msg list"

text \<open>The ladder of part\_000 (lines 62 to 102); \<open>pctDiff\<close> is \<open>Math.round(Math.abs(1 - ratio) * 100)\<close>.\<close>

definition ladder2 :: "jsval \<Rightarrow> jsval \<Rightarrow> real \<Rightarrow> acc" where
  "ladder2 pps medPPS ratio =
     (let pctDiff = js_round (\<bar>1 - ratio\<bar> * 100);
          med = js_round (num medPPS)
      in if ratio \<le> 0.4 then
           \<lparr>score = 10,
            mainReason = Msg ''Izuzetna cena: {} EUR/m2 je {}% ispod medijane ({} EUR/m2)'' [N pps, I pctDiff, I med],
            pros = [Msg ''Cena po m2 daleko ispod proseka'' []], cons = []\<rparr>
         else if ratio \<le> 0.55 then
           \<lparr>score = 9,
            mainReason = Msg ''Odlicna cena: {} EUR/m2 je {}% ispod medijane ({} EUR/m2)'' [N pps, I pctDiff, I med],
            pros = [Msg ''Cena po m2 znatno ispod proseka'' []], cons = []\<rparr>
         else if ratio \<le> 0.7 then
           \<lparr>score = 8,
            mainReason = Msg ''Vrlo dobra cena: {} EUR/m2 je {}% ispod medijane ({} EUR/m2)'' [N pps, I pctDiff, I med],
            pros = [Msg ''Cena po m2 znatno niza od proseka'' []], cons = []\<rparr>
         else if ratio \<le> 0.85 then
           \<lparr>score = 7,
            mainReason = Msg ''Dobra cena: {} EUR/m2 je {}% ispod medijane ({} EUR/m2)'' [N pps, I pctDiff, I med],
            pros = [Msg ''Cena po m2 ispod proseka'' []], cons = []\<rparr>
         else if ratio \<le> 1.0 then
           \<lparr>score = 6,
            mainReason = Msg ''Solidna cena: {} EUR/m2 je blizu medijane ({} EUR/m2)'' [N pps, I med],
            pros = [Msg ''Cena blizu ili malo ispod proseka'' []], cons = []\<rparr>
         else if ratio \<le> 1.15 then
           \<lparr>score = 5,
            mainReason = Msg ''Prosecna cena: {} EUR/m2 je blizu medijane ({} EUR/m2)'' [N pps, I med],
            pros = [], cons = [Msg ''Cena po m2 na nivou proseka - nema ustede'' []]\<rparr>
         else if ratio \<le> 1.3 then
           \<lparr>score = 4,
            mainReason = Msg ''Iznadprosecna cena: {} EUR/m2 je {}% iznad medijane ({} EUR/m2)'' [N pps, I pctDiff, I med],
            pros = [], cons = [Msg ''Cena po m2 iznad proseka za {}%'' [I pctDiff]]\<rparr>
         else if ratio \<le> 1.5 then
           \<lparr>score = 3,
            mainReason = Msg ''Skupa: {} EUR/m2 je {}% iznad medijane ({} EUR/m2)'' [N pps, I pctDiff, I med],
            pros = [], cons = [Msg ''Cena po m2 znatno iznad proseka'' []]\<rparr>
         else if ratio \<le> 1.8 then
           \<lparr>score = 2,
            mainReason = Msg ''Vrlo skupa: {} EUR/m2 je {}% iznad medijane ({} EUR/m2)'' [N pps, I pctDiff, I med],
            pros = [], cons = [Msg ''Cena po m2 mnogo iznad proseka'' []]\<rparr>
         else
           \<lparr>score = 1,
            mainReason = Msg ''Preskupa: {} EUR/m2 je {}% iznad medijane ({} EUR/m2)'' [N pps, I pctDiff, I med],
            pros = [], cons = [Msg ''Cena po m2 daleko iznad proseka'' []]\<rparr>)"

text \<open>The neighbourhood comparison (lines 105 to 116).\<close>

definition neighborhood_bonus2 :: "(string \<rightharpoonup> nstat) \<Rightarrow> listing \<Rightarrow> acc \<Rightarrow> acc" where
  "neighborhood_bonus2 neighborhoodStats listing st =
     (case neighborhoodStats (neighborhood listing) of
        None \<Rightarrow> st
      | Some nStats \<Rightarrow>
          if truthy (median nStats) then
            let nRatio = num (pricePerSqm listing) / num (median nStats);
                nMed = js_round (num (median nStats))
            in if nRatio \<le> 0.6 then
                 st\<lparr>score := min 10 (score st + 1),
                    pros := pros st @ [Msg ''Najbolja cena u {} (prosek: {} EUR/m2)'' [S (neighborhood listing), I nMed]]\<rparr>
               else if nRatio \<le> 0.85 then
                 st\<lparr>pros := pros st @ [Msg ''Ispod proseka za {} ({} EUR/m2)'' [S (neighborhood listing), I nMed]]\<rparr>
               else if nRatio > 1.2 then
                 st\<lparr>cons := cons st @ [Msg ''Iznad proseka za {} ({} EUR/m2)'' [S (neighborhood listing), I nMed]]\<rparr>
               else st
          else st)"

text \<open>The price branch (lines 58 to 131). \<open>L\<close> marks a value rendered by \<open>toLocaleString('de-DE')\<close>.\<close>

definition price_branch2 :: "jsval \<Rightarrow> jsval \<Rightarrow> (string \<rightharpoonup> nstat) \<Rightarrow> listing \<Rightarrow> acc" where
  "price_branch2 medPPS medianPrice neighborhoodStats listing =
     (if truthy (pricePerSqm listing) \<and> gt (pricePerSqm listing) 0 \<and> truthy medPPS then
        let ratio = num (pricePerSqm listing) / num medPPS
        in neighborhood_bonus2 neighborhoodStats listing (ladder2 (pricePerSqm listing) medPPS ratio)
      else if truthy (price listing) \<and> truthy medianPrice then
        let ratio = num (price listing) / num medianPrice
        in \<lparr>score = price_ladder ratio,
            mainReason = Msg ''Ocenjeno po ukupnoj ceni ({} EUR) - nema podataka o kvadraturi'' [L (price listing)],
            pros = [],
            cons = [Msg ''Nema podataka o ceni po m2 za preciznije poredjenje'' []]\<rparr>
      else
        \<lparr>score = 5,
         mainReason = Msg ''Nedovoljno podataka o ceni za ocenu'' [],
         pros = [],
         cons = [Msg ''Nema dovoljno podataka za poredjenje'' []]\<rparr>)"

text \<open>The land bonus (lines 134 to 144).\<close>

definition land_bonus2 :: "listing \<Rightarrow> acc \<Rightarrow> acc" where
  "land_bonus2 listing st =
     (if truthy (landSqm listing) \<and> gt (landSqm listing) 500 \<and> truthy (price listing) then
        let landPriceRatio = num (price listing) / num (landSqm listing)
        in if landPriceRatio < 100 then
             st\<lparr>score := min 10 (score st + 1),
                pros := pros st @ [Msg ''Veliki plac ({} m2) po niskoj ceni ({} EUR/m2 zemljista)''
                                     [N (landSqm listing), I (js_round landPriceRatio)]]\<rparr>
           else if gt (landSqm listing) 800 then
             st\<lparr>pros := pros st @ [Msg ''Veliki plac od {} m2'' [N (landSqm listing)]]\<rparr>
           else st
      else if truthy (landSqm listing) \<and> gt (landSqm listing) 800 then
        st\<lparr>pros := pros st @ [Msg ''Veliki plac od {} m2'' [N (landSqm listing)]]\<rparr>
      else st)"

text \<open>The two informational blocks (lines 147 to 157); neither touches the score.\<close>

definition context2 :: "listing \<Rightarrow> acc \<Rightarrow> acc" where
  "context2 listing st =
     (let st1 =
            (if truthy (sqm listing) \<and> gt (sqm listing) 150 then
               st\<lparr>pros := pros st @ [Msg ''Velika kuca ({} m2)'' [N (sqm listing)]]\<rparr>
             else if truthy (sqm listing) \<and> lt (sqm listing) 50 then
               st\<lparr>cons := cons st @ [Msg ''Mala kuca ({} m2)'' [N (sqm listing)]]\<rparr>
             else st)
      in if truthy (price listing) \<and> lt (price listing) 30000 then
           st1\<lparr>pros := pros st1 @ [Msg ''Niska ukupna cena ({} EUR)'' [L (price listing)]]\<rparr>
         else if truthy (price listing) \<and> gt (price listing) 200000 then
           st1\<lparr>cons := cons st1 @ [Msg ''Visoka ukupna cena ({} EUR)'' [L (price listing)]]\<rparr>
         else st1)"

definition rate2 :: "jsval \<Rightarrow> jsval \<Rightarrow> (string \<rightharpoonup> nstat) \<Rightarrow> listing \<Rightarrow> rated" where
  "rate2 medPPS medianPrice neighborhoodStats listing =
     (let st = context2 listing
                 (land_bonus2 listing (price_branch2 medPPS medianPrice neighborhoodStats listing));
          score = max 1 (min 10 (score st));
          label = (if score \<ge> 9 then ''MUST BUY'' else [])
      in listing.extend listing
           (rated.fields score label [mainReason st] (Some (pros st)) (Some (cons st))
              (Some (js_round (if truthy medPPS then num medPPS else 0)))))"

definition rateListings2 :: "listing list \<Rightarrow> error + rated list" where
  "rateListings2 listings =
     (if length listings = 0 then Inr []
      else
        let withPrice = filter (\<lambda>l. usable (price l)) listings;
            withPPS = filter (\<lambda>l. usable (pricePerSqm l)) listings
        in if length withPrice = 0 then Inr (map no_price_rated listings)
           else
             let allPPS = js_sort ascending (map (\<lambda>l. num (pricePerSqm l)) withPPS);
                 medPPS = (if length allPPS \<noteq> 0 then percentile allPPS 50 else Null);
                 allPrices = js_sort ascending (map (\<lambda>l. num (price l)) withPrice);
                 medianPrice = percentile allPrices 50
             in (case collect withPPS Map.empty of
                   Inl e \<Rightarrow> Inl e
                 | Inr stats \<Rightarrow>
                     Inr (js_sort by_rank
                            (map (rate2 medPPS medianPrice (summarise stats)) listings))))"

section \<open>The order and the statistics, in the words of the specification\<close>

text \<open>
  \<open>ranked_before a b\<close>: \<open>a\<close> may stand before \<open>b\<close> in the ranked output. The rating is
  higher, or the ratings are equal and the tie-break does not put \<open>b\<close> first: by price
  per square metre when both have one, else by price when both have one, else the two
  are tied. \<open>tied a b\<close>: equal rating and the tie-break sees no difference.
\<close>

definition ranked_before :: "rated \<Rightarrow> rated \<Rightarrow> bool" where
  "ranked_before a b =
     (rating a > rating b
      \<or> rating a = rating b
        \<and> (if truthy (pricePerSqm a) \<and> truthy (pricePerSqm b)
             then num (pricePerSqm a) \<le> num (pricePerSqm b)
           else if truthy (price a) \<and> truthy (price b) then num (price a) \<le> num (price b)
           else True))"

definition tied :: "rated \<Rightarrow> rated \<Rightarrow> bool" where
  "tied a b =
     (rating a = rating b
      \<and> (if truthy (pricePerSqm a) \<and> truthy (pricePerSqm b)
           then num (pricePerSqm a) = num (pricePerSqm b)
         else if truthy (price a) \<and> truthy (price b) then num (price a) = num (price b)
         else True))"

text \<open>
  The tie-break compares different fields for different pairs, so \<open>ranked_before\<close> need
  not be transitive on a set of rated listings; where it is, the comparison function
  is consistent in the sense of ECMAScript.
\<close>

definition transitive_on :: "rated set \<Rightarrow> bool" where
  "transitive_on A =
     (\<forall>a \<in> A. \<forall>b \<in> A. \<forall>c \<in> A. ranked_before a b \<and> ranked_before b c \<longrightarrow> ranked_before a c)"






text \<open>
  Rated listings that agree on everything but the justification fields
  \<open>ratingReason\<close>, \<open>ratingPros\<close> and \<open>ratingCons\<close>.
\<close>

definition same_scores :: "rated \<Rightarrow> rated \<Rightarrow> bool" where
  "same_scores a b =
     (listing.truncate a = listing.truncate b \<and> rating a = rating b \<and> label a = label b
      \<and> medianPPS a = medianPPS b)"

section \<open>Inputs of the examples\<close>

text \<open>Three listings for the examples: two share the identifier 17, one has none.\<close>

definition house :: "string \<Rightarrow> string \<Rightarrow> listing" where
  "house i t =
     \<lparr>ident = i, title = t, link = [], price = Null, pricePerSqm = Null, sqm = Null,
      landSqm = Null, rooms = None, image_src = [], imgCount = 0, location = [],
      neighborhood = ''Grocka'', slug = ''beograd-grocka''\<rparr>"



text \<open>
  A house in Grocka with a price, a price per square metre and a plot, and the rated
  listing with given rating fields.
\<close>

definition home :: "string \<Rightarrow> jsval \<Rightarrow> jsval \<Rightarrow> jsval \<Rightarrow> listing" where
  "home i p pps land =
     \<lparr>ident = i, title = ''Kuca'', link = [], price = p, pricePerSqm = pps, sqm = Null,
      landSqm = land, rooms = None, image_src = [], imgCount = 0, location = [],
      neighborhood = ''Grocka'', slug = ''beograd-grocka''\<rparr>"

definition rated_as ::
  "listing \<Rightarrow> int \<Rightarrow> string \<Rightarrow> msg list \<Rightarrow> msg list option \<Rightarrow> msg list option \<Rightarrow> int option \<Rightarrow> rated" where
  "rated_as l r lb reason ps cs med = listing.extend l (rated.fields r lb reason ps cs med)"

text \<open>
  Five listings with prices per square metre 1000, 400, 2000, 900 and 1100, so that the
  global median is 1000; the same five with a plot of 600 square metres for 50000 at
  the median listing; and the same five without any price.
\<close>

definition five :: "listing list" where
  "five =
     [home ''1'' (Num 100000) (Num 1000) Null, home ''2'' (Num 40000) (Num 400) Null,
      home ''3'' (Num 200000) (Num 2000) Null, home ''4'' (Num 90000) (Num 900) Null,
      home ''5'' (Num 110000) (Num 1100) Null]"


definition five_unpriced :: "listing list" where
  "five_unpriced =
     [home ''1'' Null (Num 1000) Null, home ''2'' Null (Num 400) Null,
      home ''3'' Null (Num 2000) Null, home ''4'' Null (Num 900) Null,
      home ''5'' Null (Num 1100) Null]"

text \<open>
  Four listings on which the tie-break runs in a circle: a before b by price per
  square metre, b before c by price, c before a by price. All three are rated 6.
\<close>

definition circle :: "listing list" where
  "circle =
     [home ''a'' (Num 300000) (Num 1000) Null, home ''b'' (Num 100000) (Num 1010) Null,
      home ''c'' (Num 200000) Null Null, home ''d'' (Num 200000) (Num 1020) Null]"

text \<open>What rater.js returns on \<open>five\<close> and on \<open>circle\<close>.\<close>

definition five_rated :: "rated list" where
  "five_rated =
     [rated_as (home ''2'' (Num 40000) (Num 400) Null) 10 ''MUST BUY''
        [Msg ''EUR/m2 is {}% below median'' [I 60], Msg ''Best price in {}'' [S ''Grocka'']]
        None None (Some 1000),
      rated_as (home ''4'' (Num 90000) (Num 900) Null) 6 []
        [Msg ''EUR/m2 slightly below median'' []] None None (Some 1000),
      rated_as (home ''1'' (Num 100000) (Num 1000) Null) 6 []
        [Msg ''EUR/m2 slightly below median'' []] None None (Some 1000),
      rated_as (home ''5'' (Num 110000) (Num 1100) Null) 5 []
        [Msg ''EUR/m2 near median'' []] None None (Some 1000),
      rated_as (home ''3'' (Num 200000) (Num 2000) Null) 1 []
        [Msg ''EUR/m2 far above median'' []] None None (Some 1000)]"

definition circle_rated :: "rated list" where
  "circle_rated =
     [rated_as (home ''a'' (Num 300000) (Num 1000) Null) 6 []
        [Msg ''EUR/m2 slightly below median'' []] None None (Some 1010),
      rated_as (home ''b'' (Num 100000) (Num 1010) Null) 6 []
        [Msg ''EUR/m2 slightly below median'' []] None None (Some 1010),
      rated_as (home ''c'' (Num 200000) Null Null) 6 []
        [Msg ''Rated by total price (no m2 data)'' []] None None (Some 1010),
      rated_as (home ''d'' (Num 200000) (Num 1020) Null) 5 []
        [Msg ''EUR/m2 near median'' []] None None (Some 1010)]"

section \<open>Properties of percentile\<close>




section \<open>Properties of deduplicate\<close>

lemma dedup_from_idents:
  "ident ` set (dedup_from seen ls) = ident ` set ls - seen - {[]}"
  by (induction ls arbitrary: seen) auto

lemma dedup_from_distinct: "distinct (map ident (dedup_from seen ls))"
proof (induction ls arbitrary: seen)
  case Nil
  show ?case by simp
next
  case (Cons l ls)
  have "ident l \<notin> ident ` set (dedup_from (insert (ident l) seen) ls)"
    by (simp add: dedup_from_idents)
  with Cons show ?case by simp
qed

lemma dedup_from_first:
  "l \<in> set (dedup_from seen ls) \<Longrightarrow> find (\<lambda>x. ident x = ident l) ls = Some l"
proof (induction ls arbitrary: seen)
  case Nil
  then show ?case by simp
next
  case (Cons h ls)
  show ?case
  proof (cases "ident h = [] \<or> ident h \<in> seen")
    case True
    with Cons.prems have mem: "l \<in> set (dedup_from seen ls)" by simp
    then have "ident l \<in> ident ` set ls - seen - {[]}"
      using dedup_from_idents [of seen ls] by blast
    with True have "ident h \<noteq> ident l" by auto
    with Cons.IH [OF mem] show ?thesis by simp
  next
    case False
    show ?thesis
    proof (cases "l = h")
      case True
      then show ?thesis by simp
    next
      case neq: False
      with False Cons.prems have mem: "l \<in> set (dedup_from (insert (ident h) seen) ls)"
        by simp
      then have "ident l \<in> ident ` set ls - insert (ident h) seen - {[]}"
        using dedup_from_idents [of "insert (ident h) seen" ls] by blast
      then have "ident h \<noteq> ident l" by auto
      with Cons.IH [OF mem] show ?thesis by simp
    qed
  qed
qed

lemma dedup_from_subseq: "subseq (dedup_from seen ls) ls"
  by (induction ls arbitrary: seen) auto

lemma dedup_from_absorb:
  "ident ` set ls \<inter> seen = {} \<Longrightarrow> distinct (map ident ls) \<Longrightarrow> [] \<notin> ident ` set ls
   \<Longrightarrow> dedup_from seen ls = ls"
  by (induction ls arbitrary: seen) auto

text \<open>
  C6, as amended. For every list of listings, the identifiers of the output of
  \<open>deduplicate\<close> are pairwise different; they are exactly the non-empty identifiers
  of the input; every output listing is the first input listing with its identifier,
  unchanged; and the output is a subsequence of the input, so input order is kept
  and a later listing with an identifier already seen is dropped. Listings with the
  empty identifier are the exception to "each id of the input": none of them is kept.
\<close>

theorem deduplicate_first_wins:
  "distinct (map ident (deduplicate ls))
   \<and> ident ` set (deduplicate ls) = ident ` set ls - {[]}
   \<and> (\<forall>l \<in> set (deduplicate ls). find (\<lambda>x. ident x = ident l) ls = Some l)
   \<and> subseq (deduplicate ls) ls"
  unfolding deduplicate_def
  using dedup_from_distinct [of "{}" ls] dedup_from_idents [of "{}" ls]
    dedup_from_subseq [of "{}" ls] dedup_from_first [of _ "{}" ls]
  by auto

theorem deduplicate_first_wins_witness:
  "deduplicate [house ''17'' ''first'', house [] ''no id'', house ''17'' ''second'']
     = [house ''17'' ''first'']
   \<and> distinct (map ident
        (deduplicate [house ''17'' ''first'', house [] ''no id'', house ''17'' ''second'']))
   \<and> find (\<lambda>x. ident x = ''17'')
        [house ''17'' ''first'', house [] ''no id'', house ''17'' ''second'']
      = Some (house ''17'' ''first'')"
  using deduplicate_first_wins
    [of "[house ''17'' ''first'', house [] ''no id'', house ''17'' ''second'']"]
  by (simp add: deduplicate_def house_def)

text \<open>
  C6 as stated fails on the empty identifier: it occurs in the input below, and the
  output holds no listing with it.
\<close>

theorem deduplicate_empty_id_counterexample:
  "ident (house [] ''no id'') \<in> ident ` set [house [] ''no id'']
   \<and> deduplicate [house [] ''no id''] = []"
  by (simp add: deduplicate_def house_def)

text \<open>Deduplication is idempotent.\<close>

lemma deduplicate_idem: "deduplicate (deduplicate ls) = deduplicate ls"
  unfolding deduplicate_def
  by (rule dedup_from_absorb) (simp_all add: dedup_from_distinct dedup_from_idents)

text \<open>
  C10. No listing with an empty identifier is in the output of \<open>deduplicate\<close>, whatever
  the input is; in particular not when it is the only listing with that identifier.
\<close>

theorem deduplicate_drops_empty_id:
  "l \<in> set (deduplicate ls) \<Longrightarrow> ident l \<noteq> []"
  using dedup_from_idents [of "{}" ls] unfolding deduplicate_def by blast

theorem deduplicate_drops_empty_id_witness:
  "house ''9'' ''kept'' \<in> set (deduplicate [house [] ''alone'', house ''9'' ''kept''])
   \<and> ident (house ''9'' ''kept'') \<noteq> []
   \<and> house [] ''alone'' \<notin> set (deduplicate [house [] ''alone'', house ''9'' ''kept''])"
proof -
  have mem: "house ''9'' ''kept'' \<in> set (deduplicate [house [] ''alone'', house ''9'' ''kept''])"
    by (simp add: deduplicate_def house_def)
  have "house [] ''alone'' \<notin> set (deduplicate [house [] ''alone'', house ''9'' ''kept''])"
    by (simp add: deduplicate_def house_def)
  with mem deduplicate_drops_empty_id [OF mem] show ?thesis by simp
qed

section \<open>Properties of parseSqm\<close>

lemma parseFloat_not_Null: "parseFloat s \<noteq> Null"
  by (simp add: parseFloat_def Let_def split: option.splits)

text \<open>
  The part of C7 that the code keeps: \<open>parseSqm\<close> gives \<open>null\<close> exactly when the text is
  empty or holds no character of the class \<open>[\d.,]\<close> outside white space.
\<close>

lemma parseSqm_Null_iff:
  "parseSqm text = Null \<longleftrightarrow> text = [] \<or> (\<forall>c \<in> set text. is_space c \<or> \<not> is_numchar c)"
proof -
  let ?s = "filter (\<lambda>c. \<not> is_space c) text"
  have "takeWhile is_numchar (dropWhile (\<lambda>c. \<not> is_numchar c) ?s) = []
        \<longleftrightarrow> (\<forall>c \<in> set ?s. \<not> is_numchar c)"
  proof (cases "dropWhile (\<lambda>c. \<not> is_numchar c) ?s")
    case Nil
    then have "\<forall>c \<in> set ?s. \<not> is_numchar c"
      by (simp add: dropWhile_eq_Nil_conv)
    then show ?thesis unfolding Nil by simp
  next
    case (Cons d ds)
    then have "is_numchar d"
      using hd_dropWhile [of "\<lambda>c. \<not> is_numchar c" ?s] by auto
    moreover have "d \<in> set ?s"
      using Cons set_dropWhileD [of d "\<lambda>c. \<not> is_numchar c" ?s] by simp
    ultimately show ?thesis using Cons by auto
  qed
  then show ?thesis
    by (auto simp: parseSqm_def Let_def parseFloat_not_Null)
qed

text \<open>
  C7 at a failing input. The first run of class characters in \<open>n.a.\<close> is the single dot;
  \<open>parseFloat(".")\<close> is \<open>NaN\<close>, and \<open>parseSqm\<close> returns it: unlike \<open>parsePrice\<close> it has no
  \<open>isNaN\<close> test. So a token is found and the result is not a number.
\<close>

theorem parseSqm_returns_NaN: "parseSqm ''n.a.'' = NaN"
  by (simp add: parseSqm_def parseFloat_def unsigned_literal_def is_numchar_def is_digit_def
      is_space_def)

section \<open>Properties of getTotalPages\<close>











section \<open>Properties of the sort\<close>

lemma set_insort_by: "set (insort_by cmp x ys) = insert x (set ys)"
  by (induction ys) auto

lemma set_js_sort: "set (js_sort cmp xs) = set xs"
  unfolding js_sort_def by (induction xs) (simp_all add: set_insort_by)

lemma mset_insort_by: "mset (insort_by cmp x ys) = add_mset x (mset ys)"
  by (induction ys) auto

lemma mset_js_sort: "mset (js_sort cmp xs) = mset xs"
  unfolding js_sort_def by (induction xs) (simp_all add: mset_insort_by)

lemma js_sort_Cons: "js_sort cmp (x # xs) = insort_by cmp x (js_sort cmp xs)"
  by (simp add: js_sort_def)

lemma js_sort_Nil: "js_sort cmp [] = []"
  by (simp add: js_sort_def)

section \<open>Properties of the rated records\<close>

lemma extend_fields:
  "rating (listing.extend l (rated.fields a b c d e f)) = a"
  "label (listing.extend l (rated.fields a b c d e f)) = b"
  "ratingReason (listing.extend l (rated.fields a b c d e f)) = c"
  "ratingPros (listing.extend l (rated.fields a b c d e f)) = d"
  "ratingCons (listing.extend l (rated.fields a b c d e f)) = e"
  "medianPPS (listing.extend l (rated.fields a b c d e f)) = f"
  "price (listing.extend l (rated.fields a b c d e f)) = price l"
  "pricePerSqm (listing.extend l (rated.fields a b c d e f)) = pricePerSqm l"
  "landSqm (listing.extend l (rated.fields a b c d e f)) = landSqm l"
  "neighborhood (listing.extend l (rated.fields a b c d e f)) = neighborhood l"
  "ident (listing.extend l (rated.fields a b c d e f)) = ident l"
  "listing.truncate (listing.extend l (rated.fields a b c d e f)) = l"
  by (simp_all add: listing.defs rated.defs)

lemma rate_bounds:
  "1 \<le> rating (rate mp mpr ns l) \<and> rating (rate mp mpr ns l) \<le> 10
   \<and> label (rate mp mpr ns l) = (if 9 \<le> rating (rate mp mpr ns l) then ''MUST BUY'' else [])"
  by (simp add: rate_def Let_def extend_fields)

lemma rate2_bounds:
  "1 \<le> rating (rate2 mp mpr ns l) \<and> rating (rate2 mp mpr ns l) \<le> 10
   \<and> label (rate2 mp mpr ns l) = (if 9 \<le> rating (rate2 mp mpr ns l) then ''MUST BUY'' else [])"
  by (simp add: rate2_def Let_def extend_fields)

lemma no_price_rated_bounds:
  "rating (no_price_rated l) = 5 \<and> label (no_price_rated l) = []"
  by (simp add: no_price_rated_def extend_fields)

text \<open>
  What \<open>rateListings\<close> returns, case by case: the three exits of the function.
\<close>

lemma rateListings_cases:
  assumes "rateListings ls = Inr rs"
  obtains "ls = []" and "rs = []"
  | "ls \<noteq> []" and "\<forall>l \<in> set ls. \<not> usable (price l)" and "rs = map no_price_rated ls"
  | mp mpr ns where "\<exists>l \<in> set ls. usable (price l)"
      and "rs = js_sort by_rank (map (rate mp mpr ns) ls)"
proof (cases "ls = []")
  case True
  with assms that(1) show ?thesis by (simp add: rateListings_def)
next
  case ne: False
  show ?thesis
  proof (cases "filter (\<lambda>l. usable (price l)) ls = []")
    case True
    then have "\<forall>l \<in> set ls. \<not> usable (price l)"
      by (simp add: filter_empty_conv)
    moreover from True ne assms have "rs = map no_price_rated ls"
      by (simp add: rateListings_def)
    ultimately show ?thesis using ne that(2) by blast
  next
    case False
    then have ex: "\<exists>l \<in> set ls. usable (price l)"
      by (auto simp: filter_empty_conv)
    from False ne assms obtain mp mpr ns where "rs = js_sort by_rank (map (rate mp mpr ns) ls)"
      by (auto simp: rateListings_def Let_def split: sum.splits)
    with ex that(3) show ?thesis by blast
  qed
qed

lemma rateListings2_cases:
  assumes "rateListings2 ls = Inr rs"
  obtains "ls = []" and "rs = []"
  | "ls \<noteq> []" and "\<forall>l \<in> set ls. \<not> usable (price l)" and "rs = map no_price_rated ls"
  | mp mpr ns where "\<exists>l \<in> set ls. usable (price l)"
      and "rs = js_sort by_rank (map (rate2 mp mpr ns) ls)"
proof (cases "ls = []")
  case True
  with assms that(1) show ?thesis by (simp add: rateListings2_def)
next
  case ne: False
  show ?thesis
  proof (cases "filter (\<lambda>l. usable (price l)) ls = []")
    case True
    then have "\<forall>l \<in> set ls. \<not> usable (price l)"
      by (simp add: filter_empty_conv)
    moreover from True ne assms have "rs = map no_price_rated ls"
      by (simp add: rateListings2_def)
    ultimately show ?thesis using ne that(2) by blast
  next
    case False
    then have ex: "\<exists>l \<in> set ls. usable (price l)"
      by (auto simp: filter_empty_conv)
    from False ne assms obtain mp mpr ns where "rs = js_sort by_rank (map (rate2 mp mpr ns) ls)"
      by (auto simp: rateListings2_def Let_def split: sum.splits)
    with ex that(3) show ?thesis by blast
  qed
qed

text \<open>
  \<open>rateListings\<close> returns a list unless a listing with a usable price per square metre
  carries a neighbourhood name that \<open>Object.prototype\<close> defines; the eight names of
  scraper.js are none of these.
\<close>

lemma collect_returns:
  "\<forall>l \<in> set ls. neighborhood l \<notin> proto_members \<Longrightarrow> \<exists>m'. collect ls m = Inr m'"
  by (induction ls arbitrary: m) auto

lemma rateListings_returns:
  assumes "\<forall>l \<in> set ls. neighborhood l \<notin> proto_members"
  shows "\<exists>rs. rateListings ls = Inr rs" and "\<exists>rs. rateListings2 ls = Inr rs"
proof -
  from assms have "\<forall>l \<in> set (filter (\<lambda>l. usable (pricePerSqm l)) ls). neighborhood l \<notin> proto_members"
    by simp
  then obtain m' where "collect (filter (\<lambda>l. usable (pricePerSqm l)) ls) Map.empty = Inr m'"
    using collect_returns by blast
  then show "\<exists>rs. rateListings ls = Inr rs" and "\<exists>rs. rateListings2 ls = Inr rs"
    by (simp_all add: rateListings_def rateListings2_def Let_def)
qed

text \<open>
  C1. Every rated listing that \<open>rateListings\<close> produces, in rater.js and in part\_000,
  has an integer rating between 1 and 10; its label is \<open>MUST BUY\<close> exactly when the
  rating is at least 9, and the empty string otherwise.
\<close>

theorem rating_bounds_and_label:
  assumes "rateListings ls = Inr rs \<or> rateListings2 ls = Inr rs" and "r \<in> set rs"
  shows "1 \<le> rating r \<and> rating r \<le> 10
       \<and> (label r = ''MUST BUY'' \<longleftrightarrow> 9 \<le> rating r)
       \<and> (rating r < 9 \<longrightarrow> label r = [])"
proof -
  have "1 \<le> rating r \<and> rating r \<le> 10 \<and> label r = (if 9 \<le> rating r then ''MUST BUY'' else [])"
    using assms(1)
  proof
    assume "rateListings ls = Inr rs"
    then show ?thesis
    proof (cases rule: rateListings_cases)
      case 1
      with assms(2) show ?thesis by simp
    next
      case 2
      with assms(2) show ?thesis by (auto simp: no_price_rated_bounds)
    next
      case (3 mp mpr ns)
      with assms(2) obtain l where "r = rate mp mpr ns l"
        by (auto simp: set_js_sort)
      then show ?thesis using rate_bounds by simp
    qed
  next
    assume "rateListings2 ls = Inr rs"
    then show ?thesis
    proof (cases rule: rateListings2_cases)
      case 1
      with assms(2) show ?thesis by simp
    next
      case 2
      with assms(2) show ?thesis by (auto simp: no_price_rated_bounds)
    next
      case (3 mp mpr ns)
      with assms(2) obtain l where "r = rate2 mp mpr ns l"
        by (auto simp: set_js_sort)
      then show ?thesis using rate2_bounds by simp
    qed
  qed
  then show ?thesis by auto
qed

theorem rating_bounds_and_label_witness:
  "rateListings five = Inr five_rated
   \<and> five_rated ! 0 \<in> set five_rated
   \<and> rating (five_rated ! 0) = 10 \<and> label (five_rated ! 0) = ''MUST BUY''
   \<and> 1 \<le> rating (five_rated ! 0) \<and> rating (five_rated ! 0) \<le> 10"
proof -
  have out: "rateListings five = Inr five_rated" by code_simp
  have mem: "five_rated ! 0 \<in> set five_rated" by code_simp
  have top: "rating (five_rated ! 0) = 10" by code_simp
  from rating_bounds_and_label [OF disjI1 [OF out] mem] out mem top show ?thesis
    by simp
qed

text \<open>
  C3. On the empty list \<open>rateListings\<close> returns the empty list. On a non-empty list in
  which no listing has a usable price (\<open>l.price && l.price > 0\<close>) it returns, in input
  order, every input listing with rating 5, the empty label and the sentence
  \<open>No price data available for comparison\<close>; the result holds no statistic (no
  \<open>medianPPS\<close> field), and it is a list, not an exception. Both files agree here.
\<close>

theorem no_price_data_path:
  "rateListings [] = Inr [] \<and> rateListings2 [] = Inr []
   \<and> (ls \<noteq> [] \<and> (\<forall>l \<in> set ls. \<not> usable (price l)) \<longrightarrow>
        rateListings ls = Inr (map no_price_rated ls)
        \<and> rateListings2 ls = Inr (map no_price_rated ls)
        \<and> map listing.truncate (map no_price_rated ls) = ls
        \<and> (\<forall>r \<in> set (map no_price_rated ls).
              rating r = 5 \<and> label r = []
              \<and> ratingReason r = [Msg ''No price data available for comparison'' []]
              \<and> medianPPS r = None))"
proof -
  have "map listing.truncate (map no_price_rated ls) = ls"
    by (induction ls) (simp_all add: no_price_rated_def extend_fields)
  moreover have "filter (\<lambda>l. usable (price l)) ls = []" if "\<forall>l \<in> set ls. \<not> usable (price l)"
    using that by (simp add: filter_empty_conv)
  ultimately show ?thesis
    by (auto simp: rateListings_def rateListings2_def no_price_rated_def extend_fields)
qed

theorem no_price_data_path_witness:
  "five_unpriced \<noteq> []
   \<and> rateListings five_unpriced = Inr (map no_price_rated five_unpriced)
   \<and> rateListings2 five_unpriced = Inr (map no_price_rated five_unpriced)
   \<and> map rating (map no_price_rated five_unpriced) = [5, 5, 5, 5, 5]"
proof -
  have ne: "five_unpriced \<noteq> []" by code_simp
  have none: "\<forall>l \<in> set five_unpriced. \<not> usable (price l)" by code_simp
  have fives: "map rating (map no_price_rated five_unpriced) = [5, 5, 5, 5, 5]" by code_simp
  from no_price_data_path [of five_unpriced] ne none fives show ?thesis
    by blast
qed

section \<open>The final sort\<close>

lemma by_rank_le_iff: "by_rank a b \<le> 0 \<longleftrightarrow> ranked_before a b"
  by (auto simp: by_rank_def ranked_before_def)

lemma by_rank_eq_iff: "by_rank a b = 0 \<longleftrightarrow> tied a b"
  by (auto simp: by_rank_def tied_def)

lemma tied_iff: "tied a b \<longleftrightarrow> ranked_before a b \<and> ranked_before b a"
  by (auto simp: tied_def ranked_before_def)

lemma ranked_before_total: "ranked_before a b \<or> ranked_before b a"
  by (auto simp: ranked_before_def)

lemma ranked_before_rating: "ranked_before a b \<Longrightarrow> rating b \<le> rating a"
  by (auto simp: ranked_before_def)

lemma not_ranked_before_rating: "\<not> ranked_before a b \<Longrightarrow> rating a \<le> rating b"
  by (auto simp: ranked_before_def split: if_splits)

text \<open>The output is ordered by rating, whatever the tie-break does.\<close>

lemma insort_by_rank_rating:
  "sorted_wrt (\<lambda>a b. rating b \<le> rating a) ys
   \<Longrightarrow> sorted_wrt (\<lambda>a b. rating b \<le> rating a) (insort_by by_rank x ys)"
proof (induction ys)
  case Nil
  show ?case by simp
next
  case (Cons y ys)
  show ?case
  proof (cases "ranked_before x y")
    case True
    then have "rating y \<le> rating x" by (rule ranked_before_rating)
    with Cons.prems True show ?thesis
      by (auto simp: by_rank_le_iff)
  next
    case False
    then have "rating x \<le> rating y" by (rule not_ranked_before_rating)
    with Cons False show ?thesis
      by (auto simp: by_rank_le_iff set_insort_by)
  qed
qed

lemma js_sort_by_rank_rating: "sorted_wrt (\<lambda>a b. rating b \<le> rating a) (js_sort by_rank xs)"
  by (induction xs) (simp_all add: js_sort_Nil js_sort_Cons insort_by_rank_rating)

text \<open>Where the order is transitive, the output is ordered by it.\<close>

lemma transitive_on_subset: "transitive_on A \<Longrightarrow> B \<subseteq> A \<Longrightarrow> transitive_on B"
  unfolding transitive_on_def by blast

lemma transitive_onD:
  "transitive_on A \<Longrightarrow> a \<in> A \<Longrightarrow> b \<in> A \<Longrightarrow> c \<in> A
   \<Longrightarrow> ranked_before a b \<Longrightarrow> ranked_before b c \<Longrightarrow> ranked_before a c"
  unfolding transitive_on_def by blast

lemma insort_by_rank_sorted:
  assumes "transitive_on (insert x (set ys))" and "sorted_wrt ranked_before ys"
  shows "sorted_wrt ranked_before (insort_by by_rank x ys)"
  using assms
proof (induction ys)
  case Nil
  show ?case by simp
next
  case (Cons y ys)
  show ?case
  proof (cases "ranked_before x y")
    case True
    have "ranked_before x z" if "z \<in> set ys" for z
    proof -
      from Cons.prems(2) that have "ranked_before y z" by simp
      with True show ?thesis
        using transitive_onD [OF Cons.prems(1), of x y z] that by simp
    qed
    with True Cons.prems(2) show ?thesis
      by (auto simp: by_rank_le_iff)
  next
    case False
    then have yx: "ranked_before y x"
      using ranked_before_total by blast
    have "transitive_on (insert x (set ys))"
      by (rule transitive_on_subset [OF Cons.prems(1)]) auto
    with Cons.IH Cons.prems(2) have "sorted_wrt ranked_before (insort_by by_rank x ys)"
      by simp
    with False yx Cons.prems(2) show ?thesis
      by (auto simp: by_rank_le_iff set_insort_by)
  qed
qed

lemma js_sort_by_rank_sorted:
  "transitive_on (set xs) \<Longrightarrow> sorted_wrt ranked_before (js_sort by_rank xs)"
proof (induction xs)
  case Nil
  show ?case by (simp add: js_sort_Nil)
next
  case (Cons x xs)
  have "transitive_on (set xs)"
    by (rule transitive_on_subset [OF Cons.prems]) auto
  then have "sorted_wrt ranked_before (js_sort by_rank xs)"
    by (rule Cons.IH)
  moreover have "transitive_on (insert x (set (js_sort by_rank xs)))"
    using Cons.prems by (simp add: set_js_sort)
  ultimately show ?case
    by (simp add: js_sort_Cons insort_by_rank_sorted)
qed

text \<open>Where the order is transitive, the sort is stable: tied listings keep their order.\<close>

lemma filter_insort_by_other:
  "\<not> P x \<Longrightarrow> filter P (insort_by cmp x ys) = filter P ys"
  by (induction ys) auto

lemma filter_insort_by_rank_tied:
  assumes "transitive_on (insert k (insert x (set ys)))" and "tied k x"
  shows "filter (tied k) (insort_by by_rank x ys) = x # filter (tied k) ys"
  using assms(1)
proof (induction ys)
  case Nil
  with assms(2) show ?case by simp
next
  case (Cons y ys)
  show ?case
  proof (cases "ranked_before x y")
    case True
    with assms(2) show ?thesis by (simp add: by_rank_le_iff)
  next
    case False
    have "\<not> tied k y"
    proof
      assume "tied k y"
      then have "ranked_before k y" by (simp add: tied_iff)
      moreover from assms(2) have "ranked_before x k" by (simp add: tied_iff)
      ultimately have "ranked_before x y"
        using transitive_onD [OF Cons.prems, of x k y] by simp
      with False show False by simp
    qed
    moreover have "transitive_on (insert k (insert x (set ys)))"
      by (rule transitive_on_subset [OF Cons.prems]) auto
    ultimately show ?thesis
      using False Cons.IH by (simp add: by_rank_le_iff)
  qed
qed

lemma js_sort_by_rank_stable:
  "transitive_on (insert k (set xs))
   \<Longrightarrow> filter (tied k) (js_sort by_rank xs) = filter (tied k) xs"
proof (induction xs)
  case Nil
  show ?case by (simp add: js_sort_Nil)
next
  case (Cons x xs)
  have sub: "transitive_on (insert k (set xs))"
    by (rule transitive_on_subset [OF Cons.prems]) auto
  show ?case
  proof (cases "tied k x")
    case True
    have "transitive_on (insert k (insert x (set (js_sort by_rank xs))))"
      using Cons.prems by (simp add: set_js_sort)
    with True Cons.IH [OF sub] show ?thesis
      by (simp add: js_sort_Cons filter_insort_by_rank_tied)
  next
    case False
    with Cons.IH [OF sub] show ?thesis
      by (simp add: js_sort_Cons filter_insort_by_other)
  qed
qed

text \<open>
  The order is transitive on rated listings that all have a price per square metre:
  it is then the lexicographic order on rating and price per square metre.
\<close>

lemma transitive_on_all_pps:
  "\<forall>a \<in> A. truthy (pricePerSqm a) \<Longrightarrow> transitive_on A"
  unfolding transitive_on_def ranked_before_def by auto

section \<open>The ranked output\<close>

lemma truncate_rate: "listing.truncate (rate mp mpr ns l) = l"
  by (simp add: rate_def Let_def extend_fields)

lemma truncate_rate2: "listing.truncate (rate2 mp mpr ns l) = l"
  by (simp add: rate2_def Let_def extend_fields)

lemma ranked_js_sort:
  "mset (js_sort by_rank xs) = mset xs
   \<and> sorted_wrt (\<lambda>a b. rating b \<le> rating a) (js_sort by_rank xs)
   \<and> (transitive_on (set xs) \<longrightarrow>
        sorted_wrt ranked_before (js_sort by_rank xs)
        \<and> (\<forall>k \<in> set xs. filter (tied k) (js_sort by_rank xs) = filter (tied k) xs))"
proof -
  have "filter (tied k) (js_sort by_rank xs) = filter (tied k) xs"
    if "transitive_on (set xs)" and "k \<in> set xs" for k
  proof -
    from that have "transitive_on (insert k (set xs))"
      by (simp add: insert_absorb)
    then show ?thesis by (rule js_sort_by_rank_stable)
  qed
  then show ?thesis
    by (simp add: mset_js_sort js_sort_by_rank_rating js_sort_by_rank_sorted)
qed

text \<open>
  C2, as amended. When some listing has a usable price, the output of
  \<open>rateListings\<close> (rater.js and part\_000) is a rearrangement of the rated sequence
  \<open>xs\<close>, the input listings rated in input order, and it is in descending order of
  rating. If moreover the order "rating, then price per square metre where both have
  one, else price where both have one" is transitive on these rated listings, as it is
  when all of them have a price per square metre, then the output is ordered by it,
  position by position, and listings that are tied keep their relative order from
  \<open>xs\<close>. Nothing is said of the tie-break order where that order is not transitive,
  nor of the path without any usable price, which returns the input order.
\<close>

theorem ranked_output:
  assumes "rateListings ls = Inr rs \<or> rateListings2 ls = Inr rs"
    and "\<exists>l \<in> set ls. usable (price l)"
  shows "\<exists>xs. map listing.truncate xs = ls
          \<and> mset rs = mset xs
          \<and> sorted_wrt (\<lambda>a b. rating b \<le> rating a) rs
          \<and> (transitive_on (set xs) \<longrightarrow>
               sorted_wrt ranked_before rs
               \<and> (\<forall>k \<in> set xs. filter (tied k) rs = filter (tied k) xs))"
  using assms(1)
proof
  assume "rateListings ls = Inr rs"
  then show ?thesis
  proof (cases rule: rateListings_cases)
    case 1
    with assms(2) show ?thesis by simp
  next
    case 2
    with assms(2) show ?thesis by blast
  next
    case (3 mp mpr ns)
    have "map listing.truncate (map (rate mp mpr ns) ls) = ls"
      by (induction ls) (simp_all add: truncate_rate)
    with 3(2) ranked_js_sort [of "map (rate mp mpr ns) ls"] show ?thesis
      by blast
  qed
next
  assume "rateListings2 ls = Inr rs"
  then show ?thesis
  proof (cases rule: rateListings2_cases)
    case 1
    with assms(2) show ?thesis by simp
  next
    case 2
    with assms(2) show ?thesis by blast
  next
    case (3 mp mpr ns)
    have "map listing.truncate (map (rate2 mp mpr ns) ls) = ls"
      by (induction ls) (simp_all add: truncate_rate2)
    with 3(2) ranked_js_sort [of "map (rate2 mp mpr ns) ls"] show ?thesis
      by blast
  qed
qed

theorem ranked_output_witness:
  "rateListings five = Inr five_rated
   \<and> (\<exists>l \<in> set five. usable (price l))
   \<and> transitive_on (set five_rated)
   \<and> sorted_wrt (\<lambda>a b. rating b \<le> rating a) five_rated
   \<and> sorted_wrt ranked_before five_rated"
proof -
  have out: "rateListings five = Inr five_rated" by code_simp
  have priced: "\<exists>l \<in> set five. usable (price l)" by code_simp
  have trans: "transitive_on (set five_rated)" by code_simp
  from ranked_output [OF disjI1 [OF out] priced] obtain xs where
    perm: "mset five_rated = mset xs"
    and rated: "sorted_wrt (\<lambda>a b. rating b \<le> rating a) five_rated"
    and tr: "transitive_on (set xs) \<longrightarrow> sorted_wrt ranked_before five_rated"
    by blast
  from perm have "set xs = set five_rated"
    by (metis set_mset_mset)
  with trans tr have "sorted_wrt ranked_before five_rated" by simp
  with out priced trans rated show ?thesis by simp
qed

text \<open>
  C2 as stated fails in two ways. Without any usable price the output is the input
  order: the first two listings of \<open>five_unpriced\<close> are both rated 5 and both have a
  price per square metre, 1000 before 400. And on \<open>circle\<close>, where the tie-break runs
  in a circle, no arrangement of a, b and c satisfies the claim; in the output a
  stands before c, both are rated 6, c has no price per square metre, both have a
  price, and the price of a is the higher one.
\<close>

theorem ranked_output_counterexample:
  "rateListings five_unpriced = Inr (map no_price_rated five_unpriced)
   \<and> rating (map no_price_rated five_unpriced ! 0) = rating (map no_price_rated five_unpriced ! 1)
   \<and> pricePerSqm (map no_price_rated five_unpriced ! 0) = Num 1000
   \<and> pricePerSqm (map no_price_rated five_unpriced ! 1) = Num 400
   \<and> rateListings circle = Inr circle_rated
   \<and> rating (circle_rated ! 0) = rating (circle_rated ! 2)
   \<and> pricePerSqm (circle_rated ! 2) = Null
   \<and> price (circle_rated ! 0) = Num 300000
   \<and> price (circle_rated ! 2) = Num 200000
   \<and> \<not> ranked_before (circle_rated ! 0) (circle_rated ! 2)"
  by code_simp

section \<open>The two files agree on the scores\<close>

lemma ladder2_score: "score (ladder2 pps mp ratio) = fst (ladder ratio)"
  by (simp add: ladder_def ladder2_def Let_def)

lemma neighborhood_bonus2_score:
  "score (neighborhood_bonus2 ns l st) =
     (case ns (neighborhood l) of
        None \<Rightarrow> score st
      | Some n \<Rightarrow>
          if truthy (median n) \<and> num (pricePerSqm l) / num (median n) \<le> 0.6
          then min 10 (score st + 1) else score st)"
  by (simp add: neighborhood_bonus2_def Let_def split: option.splits)

lemma price_branch2_score: "score (price_branch2 mp mpr ns l) = fst (price_branch mp mpr ns l)"
  by (simp add: price_branch_def price_branch2_def neighborhood_bonus2_score ladder2_score
      Let_def split: option.splits)

lemma land_bonus2_score: "score (land_bonus2 l st) = fst (land_bonus l (score st, rs))"
  by (simp add: land_bonus_def land_bonus2_def Let_def)

lemma land_bonus_fst: "fst (land_bonus l st) = fst (land_bonus l (fst st, rs))"
  by (simp add: land_bonus_def Let_def)

lemma context2_score: "score (context2 l st) = score st"
  by (simp add: context2_def Let_def)

lemma rating_rate2: "rating (rate2 mp mpr ns l) = rating (rate mp mpr ns l)"
proof -
  have "score (context2 l (land_bonus2 l (price_branch2 mp mpr ns l)))
        = fst (land_bonus l (fst (price_branch mp mpr ns l), []))"
    by (simp add: context2_score land_bonus2_score [where rs = "[]"] price_branch2_score)
  also have "\<dots> = fst (land_bonus l (price_branch mp mpr ns l))"
    by (rule land_bonus_fst [symmetric])
  finally show ?thesis
    by (simp add: rate_def rate2_def Let_def extend_fields)
qed

lemma rate_same_scores: "same_scores (rate mp mpr ns l) (rate2 mp mpr ns l)"
proof -
  have "label (rate2 mp mpr ns l) = label (rate mp mpr ns l)"
    using rate_bounds [of mp mpr ns l] rate2_bounds [of mp mpr ns l]
    by (simp add: rating_rate2)
  moreover have "medianPPS (rate2 mp mpr ns l) = medianPPS (rate mp mpr ns l)"
    by (simp add: rate_def rate2_def Let_def extend_fields)
  ultimately show ?thesis
    by (simp add: same_scores_def rating_rate2 truncate_rate truncate_rate2)
qed

lemma truncate_fields:
  "price (listing.truncate r) = price r"
  "pricePerSqm (listing.truncate r) = pricePerSqm r"
  by (simp_all add: listing.defs)

lemma by_rank_same_scores:
  assumes "same_scores a a'" and "same_scores b b'"
  shows "by_rank a b = by_rank a' b'"
proof -
  from assms(1) have "price a = price a'" "pricePerSqm a = pricePerSqm a'" "rating a = rating a'"
    unfolding same_scores_def by (metis truncate_fields)+
  moreover from assms(2) have "price b = price b'" "pricePerSqm b = pricePerSqm b'" "rating b = rating b'"
    unfolding same_scores_def by (metis truncate_fields)+
  ultimately show ?thesis by (simp add: by_rank_def)
qed

lemma list_all2_insort_by_rank:
  assumes "same_scores x y" and "list_all2 same_scores xs ys"
  shows "list_all2 same_scores (insort_by by_rank x xs) (insort_by by_rank y ys)"
  using assms(2)
proof (induction rule: list_all2_induct)
  case Nil
  with assms(1) show ?case by simp
next
  case (Cons a xs b ys)
  from assms(1) Cons.hyps(1) have "by_rank x a = by_rank y b"
    by (rule by_rank_same_scores)
  with Cons assms(1) show ?case by simp
qed

lemma list_all2_js_sort_by_rank:
  "list_all2 same_scores xs ys
   \<Longrightarrow> list_all2 same_scores (js_sort by_rank xs) (js_sort by_rank ys)"
  by (induction rule: list_all2_induct)
    (simp_all add: js_sort_Nil js_sort_Cons list_all2_insort_by_rank)

lemma same_scores_refl: "same_scores a a"
  by (simp add: same_scores_def)

lemma versions_agree:
  "rel_sum (=) (list_all2 same_scores) (rateListings ls) (rateListings2 ls)"
proof -
  have maps: "list_all2 same_scores (map (rate mp mpr ns) ls) (map (rate2 mp mpr ns) ls)"
    for mp mpr ns
    by (simp add: list_all2_conv_all_nth rate_same_scores)
  have same: "list_all2 same_scores (map no_price_rated ls) (map no_price_rated ls)"
    by (simp add: list_all2_conv_all_nth same_scores_refl)
  show ?thesis
    unfolding rateListings_def rateListings2_def Let_def
    using maps same
    by (auto split: sum.splits intro!: list_all2_js_sort_by_rank)
qed

text \<open>
  C9. On every input the two files behave alike: either both throw (the TypeError
  of the neighbourhood dictionary), or both return lists of the same length that
  agree position by position on all fields of the listing, on \<open>rating\<close>, on \<open>label\<close> and
  on \<open>medianPPS\<close>. So they can differ only in \<open>ratingReason\<close>, \<open>ratingPros\<close> and
  \<open>ratingCons\<close>.
\<close>

theorem rater_versions_score_equivalent:
  "(\<forall>e. rateListings ls = Inl e \<longleftrightarrow> rateListings2 ls = Inl e)
   \<and> (\<forall>rs. rateListings ls = Inr rs \<longrightarrow>
        (\<exists>rs2. rateListings2 ls = Inr rs2 \<and> list_all2 same_scores rs rs2))
   \<and> (\<forall>rs2. rateListings2 ls = Inr rs2 \<longrightarrow>
        (\<exists>rs. rateListings ls = Inr rs \<and> list_all2 same_scores rs rs2))"
  using versions_agree [of ls]
  by (cases "rateListings ls"; cases "rateListings2 ls") simp_all

theorem rater_versions_score_equivalent_witness:
  "rateListings five = Inr five_rated
   \<and> list_all2 same_scores five_rated (projr (rateListings2 five))
   \<and> map rating (projr (rateListings2 five)) = [10, 6, 6, 5, 1]
   \<and> map ratingPros five_rated = [None, None, None, None, None]
   \<and> ratingPros (projr (rateListings2 five) ! 0) \<noteq> None"
proof -
  have out: "rateListings five = Inr five_rated" by code_simp
  with rater_versions_score_equivalent [of five] obtain rs2 where
    "rateListings2 five = Inr rs2" and "list_all2 same_scores five_rated rs2"
    by blast
  then have "list_all2 same_scores five_rated (projr (rateListings2 five))"
    by simp
  moreover have "map rating (projr (rateListings2 five)) = [10, 6, 6, 5, 1]" by code_simp
  moreover have "map ratingPros five_rated = [None, None, None, None, None]" by code_simp
  moreover have "ratingPros (projr (rateListings2 five) ! 0) \<noteq> None" by code_simp
  ultimately show ?thesis using out by simp
qed

section \<open>The scenario of the five listings\<close>










end
